theory Spec2Isabelle
  imports Complex_Main "HOL-Library.Char_ord" "HOL-Library.List_Lexorder"
begin

section \<open>The generated reconciliation query, read as relational algebra\<close>

text \<open>
  \<open>generate_payment_analysis_query\<close> (query_generator.py) emits the SQL of the view
  \<open>payment_analysis_view\<close>. The stages of that SQL are embedded here as functions on
  lists of rows. A nullable SQL value is an \<open>option\<close> (\<open>None\<close> is NULL), a SQL
  boolean is a \<open>bool option\<close> with the three-valued connectives, and a \<open>WHERE\<close>,
  \<open>WHEN\<close> or \<open>ON\<close> condition lets a row through only when it is TRUE.
  A \<open>NUMERIC(18,2)\<close> amount is the integer number of hundredths, a \<open>DATE\<close> is a day
  number. Lists keep the order of their input; SQL fixes none.
\<close>

subsection \<open>Three-valued logic and scalar functions\<close>

type_synonym sql_bool = "bool option"

definition is_true :: "sql_bool \<Rightarrow> bool" where
  "is_true b = (b = Some True)"

fun sql_not :: "sql_bool \<Rightarrow> sql_bool" where
  "sql_not None = None"
| "sql_not (Some b) = Some (\<not> b)"

definition sql_and :: "sql_bool \<Rightarrow> sql_bool \<Rightarrow> sql_bool" where
  "sql_and a b =
     (if a = Some False \<or> b = Some False then Some False
      else if a = Some True \<and> b = Some True then Some True
      else None)"

definition sql_or :: "sql_bool \<Rightarrow> sql_bool \<Rightarrow> sql_bool" where
  "sql_or a b =
     (if a = Some True \<or> b = Some True then Some True
      else if a = Some False \<and> b = Some False then Some False
      else None)"

fun sql_eq :: "'a option \<Rightarrow> 'a option \<Rightarrow> sql_bool" where
  "sql_eq (Some x) (Some y) = Some (x = y)"
| "sql_eq _ _ = None"

fun sql_neq :: "'a option \<Rightarrow> 'a option \<Rightarrow> sql_bool" where
  "sql_neq (Some x) (Some y) = Some (x \<noteq> y)"
| "sql_neq _ _ = None"

definition sql_is_not_null :: "'a option \<Rightarrow> sql_bool" where
  "sql_is_not_null v = Some (v \<noteq> None)"

text \<open>\<open>x IN (v1, ..., vn)\<close> with literal, non-null \<open>vi\<close>.\<close>

fun sql_in :: "'a option \<Rightarrow> 'a list \<Rightarrow> sql_bool" where
  "sql_in None _ = None"
| "sql_in (Some x) vs = Some (x \<in> set vs)"

text \<open>\<open>UPPER\<close> on the ASCII letters; other characters are left as they are.\<close>

definition upper_char :: "char \<Rightarrow> char" where
  "upper_char c =
     (case map_of (zip ''abcdefghijklmnopqrstuvwxyz'' ''ABCDEFGHIJKLMNOPQRSTUVWXYZ'') c of
        Some u \<Rightarrow> u
      | None \<Rightarrow> c)"

definition sql_upper :: "string option \<Rightarrow> string option" where
  "sql_upper s = map_option (map upper_char) s"

text \<open>String concatenation \<open>||\<close>: NULL when an operand is NULL.\<close>

fun sql_concat :: "string option \<Rightarrow> string option \<Rightarrow> string option" where
  "sql_concat (Some x) (Some y) = Some (x @ y)"
| "sql_concat _ _ = None"

text \<open>\<open>ABS(x - y) <= tol\<close> on amounts in hundredths.\<close>

fun abs_diff_le :: "int option \<Rightarrow> int option \<Rightarrow> int \<Rightarrow> sql_bool" where
  "abs_diff_le (Some x) (Some y) tol = Some (\<bar>x - y\<bar> \<le> tol)"
| "abs_diff_le _ _ _ = None"

text \<open>The aggregate \<open>MAX\<close>: NULLs are skipped, and no non-null input gives NULL.\<close>

fun sql_max :: "('a::linorder) option list \<Rightarrow> 'a option" where
  "sql_max [] = None"
| "sql_max (None # xs) = sql_max xs"
| "sql_max (Some x # xs) = (case sql_max xs of None \<Rightarrow> Some x | Some y \<Rightarrow> Some (max x y))"

subsection \<open>Rows of the stages\<close>

text \<open>
  A row of the CTE \<open>gateway_analysis\<close>: the columns the later stages read, and the
  remaining ones (portal, metabase and gateway-specific columns) in \<open>context_columns\<close>.
\<close>

record ga_row =
  gateway_source :: "string option"
  gateway_order_id :: "int option"
  gateway_transaction_id :: "string option"
  amount :: "int option"
  status :: "string option"
  transaction_date :: "int option"
  authorization_code :: "string option"
  rrn :: "string option"
  payment_method :: "string option"
  response_code :: "string option"
  response_description :: "string option"
  is_auth :: sql_bool
  is_capture :: sql_bool
  is_refund :: sql_bool
  is_void :: sql_bool
  context_columns :: "string option list"

text \<open>A row of \<open>ranked_transactions\<close>: \<open>ga.*\<close> and the four window aggregates.\<close>

record rt_row =
  ga :: ga_row
  has_auth_in_group :: "int option"
  has_capture_in_group :: "int option"
  auth_rrn_in_group :: "string option"
  auth_authorization_code_in_group :: "string option"

text \<open>A row of \<open>transaction_with_analysis\<close>: \<open>rt.*\<close> and the four computed columns.\<close>

record ta_row =
  rt :: rt_row
  final_rrn :: "string option"
  final_authorization_code :: "string option"
  transaction_analysis :: "string option"
  transaction_outcome :: "string option"

text \<open>A row of the table \<open>bank\<close>, with the casts of the query applied.\<close>

record bank_row =
  b_authorization_code :: "string option"
  b_rrn :: "string option"
  b_transaction_amount :: "int option"
  b_transaction_date :: "int option"
  b_other_columns :: "string option list"

subsection \<open>ranked_transactions\<close>

text \<open>\<open>PARTITION BY ga.gateway_order_id, ga.gateway_transaction_id\<close>: NULL keys fall
  into one partition.\<close>

definition same_partition :: "ga_row \<Rightarrow> ga_row \<Rightarrow> bool" where
  "same_partition r r' =
     (gateway_order_id r = gateway_order_id r' \<and> gateway_transaction_id r = gateway_transaction_id r')"

definition partition_of :: "ga_row list \<Rightarrow> ga_row \<Rightarrow> ga_row list" where
  "partition_of rows r = filter (same_partition r) rows"

text \<open>\<open>MAX(CASE WHEN c THEN 1 ELSE 0 END) OVER (...)\<close>.\<close>

definition max_flag :: "sql_bool list \<Rightarrow> int option" where
  "max_flag bs = sql_max (map (\<lambda>b. Some (if is_true b then 1 else 0)) bs)"

definition rank_row :: "ga_row list \<Rightarrow> ga_row \<Rightarrow> rt_row" where
  "rank_row rows r =
     (let grp = partition_of rows r in
      \<lparr> ga = r,
        has_auth_in_group = max_flag (map is_auth grp),
        has_capture_in_group = max_flag (map is_capture grp),
        auth_rrn_in_group = sql_max (map (\<lambda>g. if is_true (is_auth g) then rrn g else None) grp),
        auth_authorization_code_in_group =
          sql_max (map (\<lambda>g. if is_true (is_auth g) then authorization_code g else None) grp) \<rparr>)"

definition ranked_transactions :: "ga_row list \<Rightarrow> rt_row list" where
  "ranked_transactions rows = map (rank_row rows) rows"

subsection \<open>transaction_with_analysis\<close>

definition code_10000 :: "rt_row \<Rightarrow> sql_bool" where
  "code_10000 r = sql_eq (response_code (ga r)) (Some ''10000'')"

definition upper_status :: "rt_row \<Rightarrow> string option" where
  "upper_status r = sql_upper (status (ga r))"

definition approved :: "rt_row \<Rightarrow> sql_bool" where
  "approved r = sql_or (code_10000 r) (sql_eq (upper_status r) (Some ''APPROVED''))"

definition merged_capture :: "rt_row \<Rightarrow> sql_bool" where
  "merged_capture r =
     sql_and (sql_and (is_capture (ga r)) (sql_eq (has_auth_in_group r) (Some 1)))
             (sql_eq (has_capture_in_group r) (Some 1))"

definition final_rrn_expr :: "rt_row \<Rightarrow> string option" where
  "final_rrn_expr r = (if is_true (merged_capture r) then auth_rrn_in_group r else rrn (ga r))"

definition final_authorization_code_expr :: "rt_row \<Rightarrow> string option" where
  "final_authorization_code_expr r =
     (if is_true (merged_capture r) then auth_authorization_code_in_group r
      else authorization_code (ga r))"

definition transaction_analysis_expr :: "rt_row \<Rightarrow> string option" where
  "transaction_analysis_expr r =
    (if is_true (is_refund (ga r)) then
       (if is_true (sql_or (code_10000 r)
                      (sql_in (upper_status r) [''FULLY_REFUNDED'', ''PARTIALLY_REFUNDED'']))
        then Some ''Refund Successful'' else Some ''Refund Failed/Pending'')
     else if is_true (sql_or (is_void (ga r)) (sql_eq (upper_status r) (Some ''CANCEL''))) then
       (if is_true (sql_or (code_10000 r) (sql_eq (upper_status r) (Some ''CANCELED'')))
        then Some ''Void Successful'' else Some ''Void Failed/Pending'')
     else if is_true (is_capture (ga r)) then
       (if is_true (sql_eq (has_auth_in_group r) (Some 0)) then
          (if is_true (approved r) then Some ''Capture Successful (auth_less)''
           else Some ''Capture Failed/Pending (auth_less)'')
        else if is_true (approved r) then
          (if is_true (sql_eq (has_auth_in_group r) (Some 1))
           then Some ''Capture Successful (Authorisation Merged)''
           else Some ''Capture Successful'')
        else sql_concat
               (sql_concat (Some ''Capture Failed/Pending (Check Response: '') (response_code (ga r)))
               (Some '')''))
     else if is_true (is_auth (ga r)) then
       (if is_true (approved r) then Some ''Authorisation Successful''
        else sql_concat
               (sql_concat (Some ''Authorisation Failed (Check Response: '') (response_code (ga r)))
               (Some '')''))
     else if is_true (code_10000 r) then Some ''General Success (Code 10000)''
     else if is_true (sql_eq (upper_status r) (Some ''APPROVED'')) then
       Some ''General Success (Approved)''
     else if is_true (sql_and (sql_and (sql_neq (response_code (ga r)) (Some ''10000''))
                                       (sql_is_not_null (response_code (ga r))))
                              (sql_neq (response_code (ga r)) (Some ''''))) then
       sql_concat (sql_concat (Some ''General Failure (Code: '') (response_code (ga r))) (Some '')'')
     else if is_true (sql_in (upper_status r) [''DECLINED'', ''FAILED'']) then
       Some ''General Failure (Declined/Failed)''
     else Some ''Unknown/Incomplete Status'')"

text \<open>The inner \<open>CASE\<close> of the outcome, the cascaded classification.\<close>

definition outcome_cascade :: "rt_row \<Rightarrow> string option" where
  "outcome_cascade r =
    (if is_true (is_refund (ga r)) then
       (if is_true (sql_or (code_10000 r)
                      (sql_in (upper_status r) [''FULLY_REFUNDED'', ''PARTIALLY_REFUNDED'']))
        then Some ''Success'' else Some ''Failure'')
     else if is_true (sql_or (is_void (ga r)) (sql_eq (upper_status r) (Some ''CANCEL''))) then
       (if is_true (sql_or (code_10000 r) (sql_eq (upper_status r) (Some ''CANCELED'')))
        then Some ''Success'' else Some ''Failure'')
     else if is_true (is_capture (ga r)) then
       (if is_true (approved r) then Some ''Success'' else Some ''Failure'')
     else if is_true (is_auth (ga r)) then
       (if is_true (approved r) then Some ''Success'' else Some ''Failure'')
     else if is_true (code_10000 r) then Some ''Success''
     else if is_true (sql_eq (upper_status r) (Some ''APPROVED'')) then Some ''Success''
     else Some ''Failure'')"

text \<open>\<open>CASE WHEN (cascade) = 'Success' THEN 'Success' ELSE 'Failure' END\<close>.\<close>

definition transaction_outcome_expr :: "rt_row \<Rightarrow> string option" where
  "transaction_outcome_expr r =
     (if is_true (sql_eq (outcome_cascade r) (Some ''Success'')) then Some ''Success''
      else Some ''Failure'')"

text \<open>The authorization row of a group that holds an authorization and a capture.\<close>

definition merged_auth :: "rt_row \<Rightarrow> sql_bool" where
  "merged_auth r =
     sql_and (sql_and (is_auth (ga r)) (sql_eq (has_auth_in_group r) (Some 1)))
             (sql_eq (has_capture_in_group r) (Some 1))"

definition where_clause :: "rt_row \<Rightarrow> sql_bool" where
  "where_clause r =
     sql_and (sql_not (merged_auth r)) (sql_eq (transaction_outcome_expr r) (Some ''Success''))"

definition analyse_row :: "rt_row \<Rightarrow> ta_row" where
  "analyse_row r =
     \<lparr> rt = r,
       final_rrn = final_rrn_expr r,
       final_authorization_code = final_authorization_code_expr r,
       transaction_analysis = transaction_analysis_expr r,
       transaction_outcome = transaction_outcome_expr r \<rparr>"

definition transaction_with_analysis :: "ga_row list \<Rightarrow> ta_row list" where
  "transaction_with_analysis rows =
     map analyse_row (filter (\<lambda>r. is_true (where_clause r)) (ranked_transactions rows))"

subsection \<open>The view: the left join with the bank table\<close>

definition auth_code_eq :: "ta_row \<Rightarrow> bank_row \<Rightarrow> sql_bool" where
  "auth_code_eq t b = sql_eq (final_authorization_code t) (b_authorization_code b)"

definition rrn_eq :: "ta_row \<Rightarrow> bank_row \<Rightarrow> sql_bool" where
  "rrn_eq t b = sql_eq (final_rrn t) (b_rrn b)"

definition same_day :: "ta_row \<Rightarrow> bank_row \<Rightarrow> sql_bool" where
  "same_day t b = sql_eq (b_transaction_date b) (transaction_date (ga (rt t)))"

text \<open>\<open>ABS(ta.amount::NUMERIC(18,2) - b.transaction_amount::NUMERIC(18,2)) <= tol\<close>;
  0.01 is one hundredth and 1.0 is a hundred of them.\<close>

definition amount_within :: "ta_row \<Rightarrow> bank_row \<Rightarrow> int \<Rightarrow> sql_bool" where
  "amount_within t b tol = abs_diff_le (amount (ga (rt t))) (b_transaction_amount b) tol"

text \<open>The seven disjuncts of the \<open>ON\<close> condition, in the order of the source.\<close>

definition join_tier_1 :: "ta_row \<Rightarrow> bank_row \<Rightarrow> sql_bool" where
  "join_tier_1 t b = sql_and (sql_and (auth_code_eq t b) (rrn_eq t b)) (amount_within t b 1)"

definition join_tier_2 :: "ta_row \<Rightarrow> bank_row \<Rightarrow> sql_bool" where
  "join_tier_2 t b = sql_and (rrn_eq t b) (amount_within t b 1)"

definition join_tier_3 :: "ta_row \<Rightarrow> bank_row \<Rightarrow> sql_bool" where
  "join_tier_3 t b = sql_and (auth_code_eq t b) (amount_within t b 1)"

definition join_tier_4 :: "ta_row \<Rightarrow> bank_row \<Rightarrow> sql_bool" where
  "join_tier_4 t b = sql_and (sql_and (auth_code_eq t b) (same_day t b)) (amount_within t b 1)"

definition join_tier_5 :: "ta_row \<Rightarrow> bank_row \<Rightarrow> sql_bool" where
  "join_tier_5 t b = sql_and (rrn_eq t b) (amount_within t b 100)"

definition join_tier_6 :: "ta_row \<Rightarrow> bank_row \<Rightarrow> sql_bool" where
  "join_tier_6 t b = sql_and (auth_code_eq t b) (amount_within t b 100)"

definition join_tier_7 :: "ta_row \<Rightarrow> bank_row \<Rightarrow> sql_bool" where
  "join_tier_7 t b = sql_and (sql_and (auth_code_eq t b) (same_day t b)) (amount_within t b 100)"

definition join_condition :: "ta_row \<Rightarrow> bank_row \<Rightarrow> sql_bool" where
  "join_condition t b =
     sql_or (sql_or (sql_or (sql_or (sql_or (sql_or (join_tier_1 t b) (join_tier_2 t b))
       (join_tier_3 t b)) (join_tier_4 t b)) (join_tier_5 t b)) (join_tier_6 t b)) (join_tier_7 t b)"

text \<open>The seven \<open>WHEN\<close> conditions of the \<open>CASE\<close> that computes \<open>bank_match_type\<close>.\<close>

definition case_when_1 :: "ta_row \<Rightarrow> bank_row \<Rightarrow> sql_bool" where
  "case_when_1 t b =
     sql_and (sql_and (sql_and (sql_is_not_null (b_authorization_code b)) (auth_code_eq t b))
                      (rrn_eq t b)) (amount_within t b 1)"

definition case_when_2 :: "ta_row \<Rightarrow> bank_row \<Rightarrow> sql_bool" where
  "case_when_2 t b = sql_and (sql_and (sql_is_not_null (b_rrn b)) (rrn_eq t b)) (amount_within t b 1)"

definition case_when_3 :: "ta_row \<Rightarrow> bank_row \<Rightarrow> sql_bool" where
  "case_when_3 t b =
     sql_and (sql_and (sql_is_not_null (b_authorization_code b)) (auth_code_eq t b))
             (amount_within t b 1)"

definition case_when_4 :: "ta_row \<Rightarrow> bank_row \<Rightarrow> sql_bool" where
  "case_when_4 t b =
     sql_and (sql_and (sql_and (sql_is_not_null (b_authorization_code b)) (auth_code_eq t b))
                      (same_day t b)) (amount_within t b 1)"

definition case_when_5 :: "ta_row \<Rightarrow> bank_row \<Rightarrow> sql_bool" where
  "case_when_5 t b = sql_and (sql_and (sql_is_not_null (b_rrn b)) (rrn_eq t b)) (amount_within t b 100)"

definition case_when_6 :: "ta_row \<Rightarrow> bank_row \<Rightarrow> sql_bool" where
  "case_when_6 t b =
     sql_and (sql_and (sql_is_not_null (b_authorization_code b)) (auth_code_eq t b))
             (amount_within t b 100)"

definition case_when_7 :: "ta_row \<Rightarrow> bank_row \<Rightarrow> sql_bool" where
  "case_when_7 t b =
     sql_and (sql_and (sql_and (sql_is_not_null (b_authorization_code b)) (auth_code_eq t b))
                      (same_day t b)) (amount_within t b 100)"

definition label_1 :: string where "label_1 = ''MATCH: Authorization Code + RRN + Amount''"
definition label_2 :: string where "label_2 = ''MATCH: RRN + Amount''"
definition label_3 :: string where "label_3 = ''MATCH: Authorization Code + Amount''"
definition label_4 :: string where
  "label_4 = ''FALLBACK MATCH: Authorization Code + Same Day + Amount''"
definition label_5 :: string where "label_5 = ''PARTIAL MATCH: RRN + Approx Amount''"
definition label_6 :: string where
  "label_6 = ''PARTIAL MATCH: Authorization Code + Approx Amount''"
definition label_7 :: string where
  "label_7 = ''PARTIAL MATCH: Authorization Code + Same Day + Approx Amount''"

definition bank_match_type :: "ta_row \<Rightarrow> bank_row \<Rightarrow> string option" where
  "bank_match_type t b =
    (if is_true (case_when_1 t b) then Some label_1
     else if is_true (case_when_2 t b) then Some label_2
     else if is_true (case_when_3 t b) then Some label_3
     else if is_true (case_when_4 t b) then Some label_4
     else if is_true (case_when_5 t b) then Some label_5
     else if is_true (case_when_6 t b) then Some label_6
     else if is_true (case_when_7 t b) then Some label_7
     else None)"

text \<open>The bank side of an unmatched row of the left join: every column NULL.\<close>

definition null_bank_row :: bank_row where
  "null_bank_row =
     \<lparr> b_authorization_code = None, b_rrn = None, b_transaction_amount = None,
       b_transaction_date = None, b_other_columns = [] \<rparr>"

text \<open>A row of the view: with the bank columns and \<open>bank_match_type\<close> when the
  reconciliation is included (\<open>None\<close> for the bank row of an unmatched gateway row),
  \<open>SELECT * FROM transaction_with_analysis\<close> otherwise.\<close>

datatype view_row =
  Reconciled ta_row "bank_row option" "string option"
| Unreconciled ta_row

fun view_ta :: "view_row \<Rightarrow> ta_row" where
  "view_ta (Reconciled t _ _) = t"
| "view_ta (Unreconciled t) = t"

definition left_join_bank :: "ta_row list \<Rightarrow> bank_row list \<Rightarrow> view_row list" where
  "left_join_bank ts bs =
     concat (map (\<lambda>t.
       (let ms = filter (\<lambda>b. is_true (join_condition t b)) bs in
        if ms = [] then [Reconciled t None (bank_match_type t null_bank_row)]
        else map (\<lambda>b. Reconciled t (Some b) (bank_match_type t b)) ms)) ts)"

definition payment_analysis_view :: "bool \<Rightarrow> ga_row list \<Rightarrow> bank_row list \<Rightarrow> view_row list" where
  "payment_analysis_view include_reconciliation rows bank =
     (if include_reconciliation then left_join_bank (transaction_with_analysis rows) bank
      else map Unreconciled (transaction_with_analysis rows))"

text \<open>The label of the first condition of a list that is TRUE, as a \<open>CASE\<close> picks it.\<close>

fun first_true :: "(sql_bool \<times> string) list \<Rightarrow> string option" where
  "first_true [] = None"
| "first_true ((c, l) # cs) = (if is_true c then Some l else first_true cs)"

subsection \<open>Example rows\<close>

text \<open>A checkout authorization and its capture, both answered with response code 10000;
  the capture carries neither RRN nor authorization code.\<close>

definition ex_auth :: ga_row where
  "ex_auth =
     \<lparr> gateway_source = Some ''checkout_v1'', gateway_order_id = Some 1001,
       gateway_transaction_id = Some ''pay_1'', amount = Some 15000,
       status = Some ''Authorisation'', transaction_date = Some 19800,
       authorization_code = Some ''C1'', rrn = Some ''A1'', payment_method = Some ''VISA'',
       response_code = Some ''10000'', response_description = Some ''Approved'',
       is_auth = Some True, is_capture = Some False, is_refund = Some False,
       is_void = Some False, context_columns = [] \<rparr>"

definition ex_capture :: ga_row where
  "ex_capture =
     \<lparr> gateway_source = Some ''checkout_v1'', gateway_order_id = Some 1001,
       gateway_transaction_id = Some ''pay_1'', amount = Some 15000,
       status = Some ''Capture'', transaction_date = Some 19800,
       authorization_code = None, rrn = None, payment_method = Some ''VISA'',
       response_code = Some ''10000'', response_description = Some ''Approved'',
       is_auth = Some False, is_capture = Some True, is_refund = Some False,
       is_void = Some False, context_columns = [] \<rparr>"

text \<open>A declined authorization of another order.\<close>

definition ex_declined :: ga_row where
  "ex_declined =
     \<lparr> gateway_source = Some ''checkout_v1'', gateway_order_id = Some 1002,
       gateway_transaction_id = Some ''pay_2'', amount = Some 990,
       status = Some ''Authorisation'', transaction_date = Some 19800,
       authorization_code = None, rrn = None, payment_method = Some ''VISA'',
       response_code = Some ''20051'', response_description = Some ''Insufficient Funds'',
       is_auth = Some True, is_capture = Some False, is_refund = Some False,
       is_void = Some False, context_columns = [] \<rparr>"

text \<open>A payfort authorization and its capture. The payfort branch of \<open>gateway_analysis\<close>
  selects \<open>''::VARCHAR AS response_code\<close>, so the response code is the empty string.\<close>

definition pf_auth :: ga_row where
  "pf_auth =
     \<lparr> gateway_source = Some ''payfort'', gateway_order_id = Some 2001,
       gateway_transaction_id = Some ''fort_1'', amount = Some 4200,
       status = Some ''AUTHORIZATION'', transaction_date = Some 19800,
       authorization_code = Some ''C1'', rrn = Some ''A1'', payment_method = Some ''MADA'',
       response_code = Some '''', response_description = Some '''',
       is_auth = Some True, is_capture = Some False, is_refund = Some False,
       is_void = Some False, context_columns = [] \<rparr>"

definition pf_capture :: ga_row where
  "pf_capture =
     \<lparr> gateway_source = Some ''payfort'', gateway_order_id = Some 2001,
       gateway_transaction_id = Some ''fort_1'', amount = Some 4200,
       status = Some ''CAPTURE'', transaction_date = Some 19800,
       authorization_code = None, rrn = None, payment_method = Some ''MADA'',
       response_code = Some '''', response_description = Some '''',
       is_auth = Some False, is_capture = Some True, is_refund = Some False,
       is_void = Some False, context_columns = [] \<rparr>"

text \<open>The merged capture of the checkout pair, as \<open>transaction_with_analysis\<close> emits it.\<close>

definition ex_merged :: ta_row where
  "ex_merged = analyse_row (rank_row [ex_auth, ex_capture] ex_capture)"

text \<open>Three bank rows: one agrees with the merged capture on authorization code, RRN and
  amount; one on the authorization code only, half a unit off in the amount; one on the
  authorization code, the day and the amount, with another RRN.\<close>

definition bank_exact :: bank_row where
  "bank_exact =
     \<lparr> b_authorization_code = Some ''C1'', b_rrn = Some ''A1'', b_transaction_amount = Some 15000,
       b_transaction_date = Some 19801, b_other_columns = [] \<rparr>"

definition bank_approx :: bank_row where
  "bank_approx =
     \<lparr> b_authorization_code = Some ''C1'', b_rrn = Some ''ZZ'', b_transaction_amount = Some 15050,
       b_transaction_date = Some 19803, b_other_columns = [] \<rparr>"

definition bank_same_day :: bank_row where
  "bank_same_day =
     \<lparr> b_authorization_code = Some ''C1'', b_rrn = Some ''YY'', b_transaction_amount = Some 15000,
       b_transaction_date = Some 19800, b_other_columns = [] \<rparr>"

section \<open>Type inference of the schema registry (generate\_config.py)\<close>

text \<open>
  Python strings are lists of characters; a character stands for a code point below 256.
  A dictionary literal is an association list read with \<open>map_of\<close>.
\<close>

subsection \<open>String helpers\<close>

text \<open>\<open>s.startswith(p)\<close> and the substring test \<open>sub in s\<close>.\<close>

definition starts_with :: "string \<Rightarrow> string \<Rightarrow> bool" where
  "starts_with s p = (take (length p) s = p)"

fun is_substring :: "string \<Rightarrow> string \<Rightarrow> bool" where
  "is_substring sub [] = (sub = [])"
| "is_substring sub (c # cs) = (starts_with (c # cs) sub \<or> is_substring sub cs)"

text \<open>\<open>str.lower\<close>: the letters A-Z and the Latin-1 capitals (all of 192-222 but the
  multiplication sign) move up by 32.\<close>

definition lower_char :: "char \<Rightarrow> char" where
  "lower_char c =
     (let n = (of_char c :: nat) in
      if (65 \<le> n \<and> n \<le> 90) \<or> (192 \<le> n \<and> n \<le> 222 \<and> n \<noteq> 215) then char_of (n + 32) else c)"

definition py_lower :: "string \<Rightarrow> string" where
  "py_lower s = map lower_char s"

text \<open>\<open>c.isdigit()\<close>: 0-9 and the superscripts 1, 2 and 3 of Latin-1.\<close>

definition is_digit :: "char \<Rightarrow> bool" where
  "is_digit c =
     (let n = (of_char c :: nat) in (48 \<le> n \<and> n \<le> 57) \<or> n = 178 \<or> n = 179 \<or> n = 185)"

subsection \<open>The tables\<close>

definition SQL_TYPE_MAP :: "(string \<times> string) list" where
  "SQL_TYPE_MAP =
     [(''integer'', ''INTEGER''), (''float'', ''NUMERIC(18,2)''), (''date'', ''DATE''),
      (''time'', ''TIME''), (''string'', ''VARCHAR(255)''), (''text'', ''TEXT'')]"

definition TEXT_COLUMNS :: "(string \<times> string list) list" where
  "TEXT_COLUMNS =
     [(''portal'', [''note'', ''order_items'', ''customer_name'', ''chef_name'',
        ''commission_percentage'', ''promotion_template_id'', ''promotion_tier_id'',
        ''gift_endurance'', ''customer_address'', ''external_client_id'', ''external_order_id'',
        ''gift_from'', ''gift_message'', ''order_content'', ''order_description'',
        ''phone_number'', ''order_address'', ''customer_email'', ''driver_id'',
        ''additional_info'']),
      (''metabase'', [''order_status'', ''reservation_status'', ''order_details'',
        ''customer_info'', ''payment_details'', ''comments'', ''address'', ''notes'',
        ''description'', ''message'']),
      (''tamara'', [''comment'', ''customer_name'', ''address'', ''order_reference_id'',
        ''consumer_email'', ''consumer_info'', ''description'', ''details'']),
      (''checkout_v1'', [''customer_address'', ''customer_email'', ''customer_name'',
        ''payment_description'', ''order_details'', ''notes'', ''comments'', ''message'',
        ''id_token'', ''description'']),
      (''checkout_v2'', [''customer_address'', ''customer_email'', ''customer_name'',
        ''payment_description'', ''order_details'', ''notes'', ''comments'', ''message'',
        ''id_token'', ''description'']),
      (''bank'', [''customer_info'', ''transaction_details'', ''notes'', ''description'',
        ''payment_description'', ''reference'', ''comments'']),
      (''payfort'', [''customer_email'', ''customer_name'', ''card_description'',
        ''payment_description'', ''notes'', ''comments'', ''message'', ''status_description''])]"

definition DATE_COLUMNS :: "string list" where
  "DATE_COLUMNS =
     [''transaction_date'', ''action_date_utc_1'', ''txn_created_at_gmt_03_00'', ''posting_date'',
      ''order_created_at_gmt_03_00'', ''delivery_date'', ''settlement_date'', ''created_at'',
      ''updated_at'', ''payment_date'', ''processing_date'', ''authorization_date'',
      ''capture_date'']"

definition FIELD_TYPE_OVERRIDES :: "(string \<times> string) list" where
  "FIELD_TYPE_OVERRIDES =
     [(''order_id'', ''integer''), (''portal_order_id'', ''integer''),
      (''gateway_order_id'', ''integer''), (''rrn'', ''string''), (''amount'', ''float''),
      (''transaction_amount'', ''float''), (''total'', ''float''), (''fees'', ''float''),
      (''cash'', ''float''), (''wallet_paid_amount'', ''float''), (''chef_total'', ''float''),
      (''commission_amount'', ''float''), (''transaction_date'', ''date''),
      (''action_date_utc_1'', ''date''), (''txn_created_at_gmt_03_00'', ''date''),
      (''posting_date'', ''date''), (''time'', ''time'')]"

subsection \<open>guess\_py\_type\<close>

text \<open>
  A sampled column: its header, its pandas dtype and its values (\<open>None\<close> is a missing
  value), each value as \<open>str\<close> prints it.
\<close>

datatype pd_dtype = Integer_dtype | Float_dtype | Datetime_dtype | Object_dtype

record series =
  series_name :: string
  series_dtype :: pd_dtype
  series_values :: "string option list"

definition dropna :: "string option list \<Rightarrow> string list" where
  "dropna vs = [v. Some v \<leftarrow> vs]"

text \<open>
  The two library calls of the value sniffing are parameters: \<open>sample vs n\<close> stands for
  \<open>s.sample(n, random_state=0)\<close> and \<open>looks_like_date v\<close> for whether
  \<open>dateutil.parser.parse\<close> accepts \<open>v\<close>.
\<close>

definition guess_py_type ::
  "(string list \<Rightarrow> nat \<Rightarrow> string list) \<Rightarrow> (string \<Rightarrow> bool) \<Rightarrow> series \<Rightarrow> string \<Rightarrow> string" where
  "guess_py_type sample looks_like_date ser mapped_name =
    (case map_of FIELD_TYPE_OVERRIDES mapped_name of
       Some t \<Rightarrow> t
     | None \<Rightarrow>
        if list_ex (\<lambda>date_term. is_substring date_term mapped_name) DATE_COLUMNS
           \<or> is_substring ''date'' mapped_name then ''date''
        else
          (let s = dropna (series_values ser) in
           if s = [] then ''string''
           else if list_ex (\<lambda>card_term. is_substring card_term (py_lower (series_name ser)))
                     [''card'', ''cc'', ''bin'', ''pan'', ''masked''] then ''string''
           else if is_substring ''*'' (hd s) \<and> list_ex is_digit (hd s) then ''string''
           else if list_ex (\<lambda>amt_term. is_substring amt_term (py_lower (series_name ser)))
                     [''amount'', ''total'', ''fees'', ''cash''] then ''float''
           else if series_dtype ser = Integer_dtype then ''integer''
           else if series_dtype ser = Float_dtype then ''float''
           else if series_dtype ser = Datetime_dtype then ''date''
           else
             (let samples = sample s (min (length s) 6);
                  parsed = length (filter looks_like_date samples)
              in if parsed \<ge> length samples div 2 then ''date'' else ''string'')))"

subsection \<open>The column specification and the post-pass of build\<close>

record col_spec =
  original :: string
  map_to :: string
  py_type :: string
  sql_type :: string

text \<open>The entry \<open>analyse_csv\<close> stores for a column.\<close>

definition analyse_column ::
  "(string list \<Rightarrow> nat \<Rightarrow> string list) \<Rightarrow> (string \<Rightarrow> bool) \<Rightarrow> string \<Rightarrow> series \<Rightarrow> string \<Rightarrow> col_spec" where
  "analyse_column sample looks_like_date original_col ser mapped_name =
     \<lparr> original = original_col, map_to = mapped_name,
       py_type = guess_py_type sample looks_like_date ser mapped_name,
       sql_type = ''VARCHAR(255)'' \<rparr>"

text \<open>The loop body of \<open>build\<close> that enforces the type by the mapped name and sets the
  SQL type.\<close>

definition enforce_py_type :: "string \<Rightarrow> string \<Rightarrow> string" where
  "enforce_py_type mapped_name t =
     (if mapped_name \<in> set DATE_COLUMNS \<or> is_substring ''date'' mapped_name then ''date''
      else if mapped_name \<in> set [''order_id'', ''portal_order_id'', ''gateway_order_id'']
        then ''integer''
      else if mapped_name = ''rrn'' then ''string''
      else if list_ex (\<lambda>kw. is_substring kw mapped_name) [''amount'', ''total'', ''fee'', ''cash'']
        then ''float''
      else t)"

definition refine_col_spec :: "string \<Rightarrow> string \<Rightarrow> col_spec \<Rightarrow> col_spec" where
  "refine_col_spec src mapped_name col =
     (let t = enforce_py_type mapped_name (py_type col) in
      col \<lparr> py_type := t,
            sql_type :=
              (if mapped_name \<in> set (case map_of TEXT_COLUMNS src of Some cs \<Rightarrow> cs | None \<Rightarrow> [])
                 then ''TEXT''
               else if src = ''payfort'' \<and> mapped_name = ''time'' then ''TIME''
               else (case map_of SQL_TYPE_MAP t of Some q \<Rightarrow> q | None \<Rightarrow> ''VARCHAR(255)'')) \<rparr>)"

text \<open>A sampled column of digit strings under the header RRN.\<close>

definition ex_rrn_series :: series where
  "ex_rrn_series =
     \<lparr> series_name = ''RRN'', series_dtype = Object_dtype,
       series_values = [Some ''512345678901'', Some ''512345678902'', Some ''512345678903''] \<rparr>"

section \<open>Batch processing of one file (FileProcessor, data\_cleaner.py)\<close>

text \<open>
  \<open>_process_file_in_batches\<close> reads a file in chunks, cleans each chunk and appends it to
  the Parquet output. What can go wrong with a chunk is the input here: reading it can
  raise (outside the inner \<open>try\<close>), cleaning or conforming it can raise before the row
  counter is updated, writing it can raise after the counter is updated.
\<close>

datatype chunk =
  Chunk_ok nat
| Clean_raises
| Write_raises nat
| Reader_raises

text \<open>The counters of the processor, the batches written so far to the output file and
  whether the output file exists.\<close>

record fp_state =
  total_rows :: nat
  error_count :: nat
  written :: "nat list"
  output_exists :: bool

datatype outcome = Returned | Raised

text \<open>The \<open>for\<close> loop over the chunks. A batch error adds one to \<open>error_count\<close> and
  raises when the count is then 1; otherwise the loop goes on.\<close>

fun process_batches :: "fp_state \<Rightarrow> chunk list \<Rightarrow> outcome \<times> fp_state" where
  "process_batches s [] = (Returned, s)"
| "process_batches s (Reader_raises # cs) = (Raised, s)"
| "process_batches s (Chunk_ok n # cs) =
     process_batches (s \<lparr> total_rows := total_rows s + n, written := written s @ [n] \<rparr>) cs"
| "process_batches s (Clean_raises # cs) =
     (let s' = s \<lparr> error_count := error_count s + 1 \<rparr> in
      if error_count s' = 1 then (Raised, s') else process_batches s' cs)"
| "process_batches s (Write_raises n # cs) =
     (let s' = s \<lparr> total_rows := total_rows s + n, error_count := error_count s + 1 \<rparr> in
      if error_count s' = 1 then (Raised, s') else process_batches s' cs)"

text \<open>
  The whole method: opening the reader or the writer can raise; the writer creates the
  output file. The outer handler removes the output file when it exists (\<open>remove_ok\<close>
  tells whether \<open>os.remove\<close> succeeds) and raises a \<open>RuntimeError\<close>.
\<close>

definition cleanup :: "bool \<Rightarrow> fp_state \<Rightarrow> fp_state" where
  "cleanup remove_ok s =
     (if output_exists s \<and> remove_ok then s \<lparr> written := [], output_exists := False \<rparr> else s)"

definition process_file_in_batches ::
  "bool \<Rightarrow> bool \<Rightarrow> bool \<Rightarrow> fp_state \<Rightarrow> chunk list \<Rightarrow> outcome \<times> fp_state" where
  "process_file_in_batches reader_ok writer_ok remove_ok s chunks =
     (if \<not> reader_ok then (Raised, cleanup remove_ok s)
      else if \<not> writer_ok then (Raised, cleanup remove_ok s)
      else
        (case process_batches (s \<lparr> written := [], output_exists := True \<rparr>) chunks of
           (Returned, s') \<Rightarrow> (Returned, s')
         | (Raised, s') \<Rightarrow> (Raised, cleanup remove_ok s')))"

text \<open>\<open>process_file\<close> resets the counters, then processes the batches. (The validation
  of the path and the duplicate detection after a run without errors are left out.)\<close>

definition process_file ::
  "bool \<Rightarrow> bool \<Rightarrow> bool \<Rightarrow> fp_state \<Rightarrow> chunk list \<Rightarrow> outcome \<times> fp_state" where
  "process_file reader_ok writer_ok remove_ok s chunks =
     process_file_in_batches reader_ok writer_ok remove_ok
       (s \<lparr> total_rows := 0, error_count := 0 \<rparr>) chunks"

text \<open>A fresh \<open>FileProcessor\<close>, before any output exists.\<close>

definition fresh_processor :: fp_state where
  "fresh_processor = \<lparr> total_rows = 0, error_count = 0, written = [], output_exists = False \<rparr>"

definition chunk_fails :: "chunk \<Rightarrow> bool" where
  "chunk_fails c = (case c of Chunk_ok _ \<Rightarrow> False | _ \<Rightarrow> True)"

definition chunk_rows :: "chunk \<Rightarrow> nat" where
  "chunk_rows c = (case c of Chunk_ok n \<Rightarrow> n | _ \<Rightarrow> 0)"

section \<open>The column cleaners (data\_cleaner.py)\<close>

text \<open>
  The files are read with \<open>dtype=str\<close>, so a raw cell is a string or a missing value.
  A string of a cell is the list of its code points; the character classes below are
  those of Python on the code points below 256, the domain on which the model is exact.
  A cleaned cell is a null or a typed value. The calls into pandas, dateutil and the
  standard library that parse one string are fields of the record \<open>lib\<close>.
\<close>

subsection \<open>Cells and columns\<close>

type_synonym ustring = "nat list"

definition u :: "string \<Rightarrow> ustring" where
  "u s = map of_char s"

datatype null_kind = NaN | PyNone | PdNA | NaT

datatype raw_cell = Raw ustring | Missing null_kind

datatype cell =
  Null null_kind
| Str ustring
| IntV int
| FloatV rat
| BoolV bool
| TimestampV int
| TimeV nat nat nat

datatype dtype = D_Int64 | D_Float64 | D_boolean | D_datetime64 | D_string | D_object






text \<open>A raw cell copied into a cleaned column.\<close>

fun of_raw :: "raw_cell \<Rightarrow> cell" where
  "of_raw (Raw s) = Str s"
| "of_raw (Missing k) = Null k"

subsection \<open>Strings of code points\<close>











subsection \<open>The library\<close>




subsection \<open>IntegerCleaner\<close>




subsection \<open>FloatCleaner\<close>





subsection \<open>DateCleaner\<close>















subsection \<open>TimeCleaner\<close>






subsection \<open>StringCleaner\<close>






subsection \<open>BooleanCleaner\<close>





subsection \<open>UuidCleaner\<close>




subsection \<open>TextCleaner\<close>







subsection \<open>The registry\<close>









section \<open>Properties of the reconciliation query\<close>

subsection \<open>Three-valued conditions that are TRUE\<close>

lemma is_true_and: "is_true (sql_and a b) \<longleftrightarrow> is_true a \<and> is_true b"
  by (auto simp: is_true_def sql_and_def)

lemma is_true_or: "is_true (sql_or a b) \<longleftrightarrow> is_true a \<or> is_true b"
  by (auto simp: is_true_def sql_or_def)

lemma is_true_not: "is_true (sql_not a) \<longleftrightarrow> a = Some False"
  by (cases a) (auto simp: is_true_def)

lemma is_true_eq: "is_true (sql_eq a b) \<longleftrightarrow> (\<exists>x. a = Some x \<and> b = Some x)"
  by (cases a; cases b) (auto simp: is_true_def)

lemma is_true_is_not_null: "is_true (sql_is_not_null a) \<longleftrightarrow> a \<noteq> None"
  by (simp add: is_true_def sql_is_not_null_def)

subsection \<open>The rows that pass the WHERE clause\<close>

lemma transaction_outcome_expr_iff:
  "transaction_outcome_expr r = Some ''Success'' \<longleftrightarrow> outcome_cascade r = Some ''Success''"
  by (auto simp: transaction_outcome_expr_def is_true_eq)

lemma where_clause_iff:
  "is_true (where_clause r) \<longleftrightarrow> merged_auth r = Some False \<and> outcome_cascade r = Some ''Success''"
  by (auto simp: where_clause_def is_true_and is_true_not is_true_eq transaction_outcome_expr_iff)

lemma rt_analyse_row: "rt (analyse_row r) = r"
  by (simp add: analyse_row_def)

lemma ga_rank_row: "ga (rank_row rows r) = r"
  by (simp add: rank_row_def Let_def)

lemma rt_transaction_with_analysis:
  "map rt (transaction_with_analysis rows) =
     filter (\<lambda>r. merged_auth r = Some False \<and> outcome_cascade r = Some ''Success'')
       (ranked_transactions rows)"
  by (simp add: transaction_with_analysis_def o_def rt_analyse_row where_clause_iff)

lemma transaction_with_analysis_rows:
  assumes "t \<in> set (transaction_with_analysis rows)"
  shows "transaction_outcome t = Some ''Success''" and "merged_auth (rt t) = Some False"
    and "outcome_cascade (rt t) = Some ''Success''" and "rt t \<in> set (ranked_transactions rows)"
  using assms
  by (auto simp: transaction_with_analysis_def where_clause_iff analyse_row_def
      transaction_outcome_expr_iff)

lemma view_ta_in:
  "v \<in> set (payment_analysis_view include_reconciliation rows bank) \<Longrightarrow>
     view_ta v \<in> set (transaction_with_analysis rows)"
  by (auto simp: payment_analysis_view_def left_join_bank_def Let_def split: if_splits)

lemma ta_in_view:
  assumes t: "t \<in> set (transaction_with_analysis rows)"
  shows "t \<in> view_ta ` set (payment_analysis_view include_reconciliation rows bank)"
proof (cases include_reconciliation)
  case False
  with t have "Unreconciled t \<in> set (payment_analysis_view include_reconciliation rows bank)"
    by (simp add: payment_analysis_view_def)
  then show ?thesis by force
next
  case True
  define ms where "ms = filter (\<lambda>b. is_true (join_condition t b)) bank"
  show ?thesis
  proof (cases "ms = []")
    case True
    then have "Reconciled t None (bank_match_type t null_bank_row)
        \<in> set (payment_analysis_view include_reconciliation rows bank)"
      using t \<open>include_reconciliation\<close>
      by (auto simp: payment_analysis_view_def left_join_bank_def Let_def ms_def
          intro!: bexI [of _ t])
    then show ?thesis by force
  next
    case False
    then obtain b where "b \<in> set ms" by (cases ms) auto
    then have "Reconciled t (Some b) (bank_match_type t b)
        \<in> set (payment_analysis_view include_reconciliation rows bank)"
      using t \<open>include_reconciliation\<close> False
      by (auto simp: payment_analysis_view_def left_join_bank_def Let_def ms_def
          intro!: bexI [of _ t])
    then show ?thesis by force
  qed
qed

lemma partition_of_same:
  "same_partition a c \<Longrightarrow> partition_of rows c = partition_of rows a"
  by (auto simp: partition_of_def same_partition_def intro!: filter_cong)

lemma filter_partition_twa:
  "filter (\<lambda>t. same_partition a (ga (rt t))) (transaction_with_analysis rows) =
     map analyse_row (filter (\<lambda>r. is_true (where_clause r))
       (map (rank_row rows) (partition_of rows a)))"
  by (simp add: transaction_with_analysis_def ranked_transactions_def partition_of_def
      filter_map o_def rt_analyse_row ga_rank_row conj_commute)

subsection \<open>Merging an authorization with its capture\<close>

text \<open>
  C1, as the spec states it: a group of \<open>gateway_analysis\<close> rows with one authorization row
  (RRN A1, authorization code C1) and one capture row (RRN and authorization code NULL)
  yields exactly one row of \<open>transaction_with_analysis\<close>, the capture. The payfort pair
  is such a group and yields no row: its capture has the response code \<open>''\<close> and a status
  other than APPROVED, so the WHERE clause drops it with the authorization.
\<close>

theorem auth_capture_merge_counterexample:
  "partition_of [pf_auth, pf_capture] pf_auth = [pf_auth, pf_capture]
   \<and> is_auth pf_auth = Some True \<and> is_capture pf_auth = Some False
   \<and> rrn pf_auth = Some ''A1'' \<and> authorization_code pf_auth = Some ''C1''
   \<and> is_capture pf_capture = Some True \<and> is_auth pf_capture = Some False
   \<and> rrn pf_capture = None \<and> authorization_code pf_capture = None
   \<and> transaction_with_analysis [pf_auth, pf_capture] = []"
  by code_simp

text \<open>
  C1, amended: let the rows of one partition (\<open>gateway_order_id\<close>,
  \<open>gateway_transaction_id\<close>) be an authorization row \<open>a\<close> with RRN A1 and authorization
  code C1 and a capture row \<open>c\<close> with both NULL. If the cascaded classification of the
  capture is Success, the stage outputs exactly one row for the partition, the capture,
  with \<open>final_rrn = A1\<close> and \<open>final_authorization_code = C1\<close>; otherwise it outputs no row
  for the partition. In both cases the authorization row is absent from the output.
\<close>

theorem auth_capture_merge:
  assumes grp: "partition_of rows a = [a, c] \<or> partition_of rows a = [c, a]"
    and a: "is_auth a = Some True" "is_capture a \<noteq> Some True"
           "rrn a = Some A1" "authorization_code a = Some C1"
    and c: "is_capture c = Some True" "is_auth c = Some False"
           "rrn c = None" "authorization_code c = None"
  shows "filter (\<lambda>t. same_partition a (ga (rt t))) (transaction_with_analysis rows) =
           (if outcome_cascade (rank_row rows c) = Some ''Success''
            then [analyse_row (rank_row rows c)] else [])
         \<and> ga (rt (analyse_row (rank_row rows c))) = c
         \<and> final_rrn (analyse_row (rank_row rows c)) = Some A1
         \<and> final_authorization_code (analyse_row (rank_row rows c)) = Some C1
         \<and> (\<forall>t \<in> set (transaction_with_analysis rows). ga (rt t) \<noteq> a)"
proof -
  from grp have "c \<in> set (partition_of rows a)" by auto
  then have sp: "same_partition a c" by (simp add: partition_of_def)
  then have pc: "partition_of rows c = partition_of rows a" by (rule partition_of_same)
  have ra: "has_auth_in_group (rank_row rows a) = Some 1"
           "has_capture_in_group (rank_row rows a) = Some 1"
    using grp a c by (auto simp: rank_row_def Let_def max_flag_def is_true_def)
  have rc: "has_auth_in_group (rank_row rows c) = Some 1"
           "has_capture_in_group (rank_row rows c) = Some 1"
           "auth_rrn_in_group (rank_row rows c) = Some A1"
           "auth_authorization_code_in_group (rank_row rows c) = Some C1"
    using grp a c by (auto simp: rank_row_def Let_def max_flag_def is_true_def pc)
  have wa: "\<not> is_true (where_clause (rank_row rows a))"
    using ra a by (simp add: where_clause_iff merged_auth_def ga_rank_row sql_and_def)
  have wc: "is_true (where_clause (rank_row rows c)) \<longleftrightarrow>
              outcome_cascade (rank_row rows c) = Some ''Success''"
    using rc c by (simp add: where_clause_iff merged_auth_def ga_rank_row sql_and_def)
  have 1: "filter (\<lambda>t. same_partition a (ga (rt t))) (transaction_with_analysis rows) =
           (if outcome_cascade (rank_row rows c) = Some ''Success''
            then [analyse_row (rank_row rows c)] else [])"
    using grp wa wc by (auto simp: filter_partition_twa)
  have 2: "ga (rt (analyse_row (rank_row rows c))) = c"
    by (simp add: rt_analyse_row ga_rank_row)
  have mc: "is_true (merged_capture (rank_row rows c))"
    using rc c by (simp add: merged_capture_def ga_rank_row is_true_and is_true_eq)
      (simp add: is_true_def)
  have 3: "final_rrn (analyse_row (rank_row rows c)) = Some A1"
    "final_authorization_code (analyse_row (rank_row rows c)) = Some C1"
    using mc rc
    by (simp_all add: analyse_row_def final_rrn_expr_def final_authorization_code_expr_def)
  have 4: "\<forall>t \<in> set (transaction_with_analysis rows). ga (rt t) \<noteq> a"
  proof
    fix t assume t: "t \<in> set (transaction_with_analysis rows)"
    show "ga (rt t) \<noteq> a"
    proof
      assume "ga (rt t) = a"
      moreover from t obtain r where "r \<in> set rows" "t = analyse_row (rank_row rows r)"
        "is_true (where_clause (rank_row rows r))"
        by (auto simp: transaction_with_analysis_def ranked_transactions_def)
      ultimately show False using wa by (simp add: rt_analyse_row ga_rank_row)
    qed
  qed
  from 1 2 3 4 show ?thesis by simp
qed

theorem auth_capture_merge_witness:
  "transaction_with_analysis [ex_auth, ex_declined, ex_capture] = [ex_merged]
   \<and> filter (\<lambda>t. same_partition ex_auth (ga (rt t)))
        (transaction_with_analysis [ex_auth, ex_declined, ex_capture]) = [ex_merged]
   \<and> ga (rt ex_merged) = ex_capture
   \<and> final_rrn ex_merged = Some ''A1''
   \<and> final_authorization_code ex_merged = Some ''C1''
   \<and> ex_auth \<notin> (\<lambda>t. ga (rt t)) ` set (transaction_with_analysis [ex_auth, ex_declined, ex_capture])"
proof -
  let ?rows = "[ex_auth, ex_declined, ex_capture]"
  have grp: "partition_of ?rows ex_auth = [ex_auth, ex_capture]
      \<or> partition_of ?rows ex_auth = [ex_capture, ex_auth]"
    by code_simp
  have a: "is_auth ex_auth = Some True" "is_capture ex_auth \<noteq> Some True"
    "rrn ex_auth = Some ''A1''" "authorization_code ex_auth = Some ''C1''"
    by (simp_all add: ex_auth_def)
  have c: "is_capture ex_capture = Some True" "is_auth ex_capture = Some False"
    "rrn ex_capture = None" "authorization_code ex_capture = None"
    by (simp_all add: ex_capture_def)
  have s: "outcome_cascade (rank_row ?rows ex_capture) = Some ''Success''"
    by code_simp
  have m: "analyse_row (rank_row ?rows ex_capture) = ex_merged"
    by code_simp
  have w: "transaction_with_analysis ?rows = [ex_merged]"
    by code_simp
  note merge = auth_capture_merge [OF grp a c]
  from merge s m
  have f: "filter (\<lambda>t. same_partition ex_auth (ga (rt t)))
        (transaction_with_analysis ?rows) = [ex_merged]"
    by simp
  from merge m
  have g: "ga (rt ex_merged) = ex_capture" "final_rrn ex_merged = Some ''A1''"
    "final_authorization_code ex_merged = Some ''C1''"
    by simp_all
  from merge
  have h: "\<forall>t \<in> set (transaction_with_analysis ?rows). ga (rt t) \<noteq> ex_auth"
    by blast
  from h have h': "ex_auth \<notin> (\<lambda>t. ga (rt t)) `
      set (transaction_with_analysis [ex_auth, ex_declined, ex_capture])"
    by auto
  show ?thesis
    by (intro conjI) (rule w f g h')+
qed

subsection \<open>Only successful rows\<close>

text \<open>
  C2: the rows of \<open>transaction_with_analysis\<close> are exactly the ranked rows that are not
  an authorization merged into a capture and whose cascaded classification is Success;
  every one of them has \<open>transaction_outcome = 'Success'\<close>. The view exposes exactly
  these rows, with and without the reconciliation (the filter is part of the view for
  both values of \<open>include_reconciliation\<close>; the other arguments of the generator shape
  the final SELECT over the view and the date restriction of \<open>gateway_analysis\<close>, the
  input here).
\<close>

theorem success_only_invariant:
  "map rt (transaction_with_analysis rows) =
     filter (\<lambda>r. merged_auth r = Some False \<and> outcome_cascade r = Some ''Success'')
       (ranked_transactions rows)
   \<and> (\<forall>t \<in> set (transaction_with_analysis rows).
        transaction_outcome t = Some ''Success'' \<and> \<not> is_true (merged_auth (rt t)))
   \<and> view_ta ` set (payment_analysis_view include_reconciliation rows bank) =
       set (transaction_with_analysis rows)
   \<and> (\<forall>v \<in> set (payment_analysis_view include_reconciliation rows bank).
        transaction_outcome (view_ta v) = Some ''Success''
        \<and> \<not> is_true (merged_auth (rt (view_ta v))))"
proof -
  have a: "\<forall>t \<in> set (transaction_with_analysis rows).
        transaction_outcome t = Some ''Success'' \<and> \<not> is_true (merged_auth (rt t))"
    using transaction_with_analysis_rows by (auto simp: is_true_def)
  have b: "view_ta ` set (payment_analysis_view include_reconciliation rows bank) =
       set (transaction_with_analysis rows)"
    using view_ta_in ta_in_view by blast
  from a b rt_transaction_with_analysis show ?thesis by blast
qed

theorem success_only_invariant_witness:
  "payment_analysis_view True [ex_auth, ex_declined, ex_capture] [bank_exact] =
     [Reconciled ex_merged (Some bank_exact) (Some label_1)]
   \<and> payment_analysis_view False [ex_auth, ex_declined, ex_capture] [bank_exact] =
     [Unreconciled ex_merged]
   \<and> transaction_outcome ex_merged = Some ''Success''
   \<and> \<not> is_true (merged_auth (rt ex_merged))"
proof -
  have 1: "payment_analysis_view True [ex_auth, ex_declined, ex_capture] [bank_exact] =
     [Reconciled ex_merged (Some bank_exact) (Some label_1)]"
    by code_simp
  have 2: "payment_analysis_view False [ex_auth, ex_declined, ex_capture] [bank_exact] =
     [Unreconciled ex_merged]"
    by code_simp
  from success_only_invariant [of "[ex_auth, ex_declined, ex_capture]" True "[bank_exact]"]
  have 3: "\<forall>v \<in> set (payment_analysis_view True [ex_auth, ex_declined, ex_capture] [bank_exact]).
        transaction_outcome (view_ta v) = Some ''Success''
        \<and> \<not> is_true (merged_auth (rt (view_ta v)))"
    by blast
  from 3 have 4: "transaction_outcome ex_merged = Some ''Success''"
    "\<not> is_true (merged_auth (rt ex_merged))"
    unfolding 1 by simp_all
  from 1 2 4 show ?thesis by blast
qed

subsection \<open>The label of a bank match\<close>

lemma labels_distinct:
  "distinct [label_1, label_2, label_3, label_4, label_5, label_6, label_7]"
  by (simp add: label_1_def label_2_def label_3_def label_4_def label_5_def label_6_def
      label_7_def)

lemma case_when_join_tier:
  "is_true (case_when_1 t b) \<longleftrightarrow> is_true (join_tier_1 t b)"
  "is_true (case_when_2 t b) \<longleftrightarrow> is_true (join_tier_2 t b)"
  "is_true (case_when_3 t b) \<longleftrightarrow> is_true (join_tier_3 t b)"
  "is_true (case_when_4 t b) \<longleftrightarrow> is_true (join_tier_4 t b)"
  "is_true (case_when_5 t b) \<longleftrightarrow> is_true (join_tier_5 t b)"
  "is_true (case_when_6 t b) \<longleftrightarrow> is_true (join_tier_6 t b)"
  "is_true (case_when_7 t b) \<longleftrightarrow> is_true (join_tier_7 t b)"
  by (auto simp: case_when_1_def case_when_2_def case_when_3_def case_when_4_def
      case_when_5_def case_when_6_def case_when_7_def join_tier_1_def join_tier_2_def
      join_tier_3_def join_tier_4_def join_tier_5_def join_tier_6_def join_tier_7_def
      auth_code_eq_def rrn_eq_def is_true_and is_true_is_not_null is_true_eq)

lemma bank_match_type_first_true:
  "bank_match_type t b =
     first_true [(join_tier_1 t b, label_1), (join_tier_2 t b, label_2),
                 (join_tier_3 t b, label_3), (join_tier_4 t b, label_4),
                 (join_tier_5 t b, label_5), (join_tier_6 t b, label_6),
                 (join_tier_7 t b, label_7)]"
  by (simp add: bank_match_type_def case_when_join_tier)

lemma join_condition_iff:
  "is_true (join_condition t b) \<longleftrightarrow>
     is_true (join_tier_1 t b) \<or> is_true (join_tier_2 t b) \<or> is_true (join_tier_3 t b) \<or>
     is_true (join_tier_4 t b) \<or> is_true (join_tier_5 t b) \<or> is_true (join_tier_6 t b) \<or>
     is_true (join_tier_7 t b)"
  by (auto simp add: join_condition_def is_true_or)

lemma join_condition_match_type:
  "is_true (join_condition t b) \<longleftrightarrow> bank_match_type t b \<noteq> None"
  by (auto simp add: join_condition_iff bank_match_type_def case_when_join_tier)

text \<open>
  C3: the \<open>CASE\<close> of \<open>bank_match_type\<close> lists the seven tiers in the order of the OR'd
  join condition, and each \<open>WHEN\<close> is TRUE exactly when the disjunct of the same position
  is: the label of a pair of rows is the label of the first tier whose join predicate is
  TRUE, a pair is joined exactly when it has a label, and a pair matching the exact tier
  (authorization code, RRN and amount within 0.01) has the label of that tier.
\<close>

theorem bank_match_type_tier_precedence:
  "bank_match_type t b =
     first_true [(join_tier_1 t b, label_1), (join_tier_2 t b, label_2),
                 (join_tier_3 t b, label_3), (join_tier_4 t b, label_4),
                 (join_tier_5 t b, label_5), (join_tier_6 t b, label_6),
                 (join_tier_7 t b, label_7)]
   \<and> (is_true (join_condition t b) \<longleftrightarrow> bank_match_type t b \<noteq> None)
   \<and> (is_true (join_tier_1 t b) \<longrightarrow> bank_match_type t b = Some label_1)"
  using bank_match_type_first_true [of t b] join_condition_match_type [of t b]
  by (simp add: bank_match_type_def case_when_join_tier)

theorem bank_match_type_tier_precedence_witness:
  "is_true (join_tier_1 ex_merged bank_exact)
   \<and> bank_match_type ex_merged bank_exact = Some label_1
   \<and> \<not> is_true (join_tier_1 ex_merged bank_approx)
   \<and> is_true (join_tier_6 ex_merged bank_approx)
   \<and> left_join_bank [ex_merged] [bank_approx, bank_exact] =
       [Reconciled ex_merged (Some bank_approx) (Some label_6),
        Reconciled ex_merged (Some bank_exact) (Some label_1)]"
proof -
  have 1: "is_true (join_tier_1 ex_merged bank_exact)" by code_simp
  have 2: "\<not> is_true (join_tier_1 ex_merged bank_approx)" by code_simp
  have 3: "is_true (join_tier_6 ex_merged bank_approx)" by code_simp
  have 4: "left_join_bank [ex_merged] [bank_approx, bank_exact] =
       [Reconciled ex_merged (Some bank_approx) (Some label_6),
        Reconciled ex_merged (Some bank_exact) (Some label_1)]"
    by code_simp
  from bank_match_type_tier_precedence [of ex_merged bank_exact] 1
  have "bank_match_type ex_merged bank_exact = Some label_1" by blast
  with 1 2 3 4 show ?thesis by blast
qed

subsection \<open>The two same-day tiers\<close>

lemma amount_within_mono:
  "is_true (amount_within t b 1) \<Longrightarrow> is_true (amount_within t b 100)"
  by (cases "amount (ga (rt t))"; cases "b_transaction_amount b")
     (auto simp: amount_within_def is_true_def)

lemma tier_4_implies_3: "is_true (case_when_4 t b) \<Longrightarrow> is_true (case_when_3 t b)"
  by (simp add: case_when_4_def case_when_3_def is_true_and)

lemma tier_7_implies_6: "is_true (case_when_7 t b) \<Longrightarrow> is_true (case_when_6 t b)"
  by (simp add: case_when_7_def case_when_6_def is_true_and)

lemma match_type_not_4_7:
  "bank_match_type t b \<noteq> Some label_4 \<and> bank_match_type t b \<noteq> Some label_7"
  using labels_distinct tier_4_implies_3 [of t b] tier_7_implies_6 [of t b]
  by (auto simp add: bank_match_type_def)

text \<open>
  C10: in the \<open>CASE\<close> of \<open>bank_match_type\<close> the fourth branch (authorization code, same
  day, amount within 0.01) is never taken, since its condition implies the third
  (authorization code, amount within 0.01), and the seventh is never taken, since its
  condition implies the sixth. The labels of the two branches are the label of no pair of
  rows and occur in no row of the left join.
\<close>

theorem same_day_tiers_unreachable:
  "(is_true (case_when_4 t b) \<longrightarrow> is_true (case_when_3 t b))
   \<and> (is_true (case_when_7 t b) \<longrightarrow> is_true (case_when_6 t b))
   \<and> bank_match_type t b \<noteq> Some label_4 \<and> bank_match_type t b \<noteq> Some label_7
   \<and> (\<forall>v \<in> set (left_join_bank ts bs). \<forall>t' b' m. v = Reconciled t' b' m \<longrightarrow>
         m \<noteq> Some label_4 \<and> m \<noteq> Some label_7)"
  using match_type_not_4_7 tier_4_implies_3 tier_7_implies_6
  by (auto simp add: left_join_bank_def Let_def split: if_splits)

theorem same_day_tiers_unreachable_witness:
  "is_true (case_when_4 ex_merged bank_same_day)
   \<and> is_true (case_when_3 ex_merged bank_same_day)
   \<and> is_true (case_when_7 ex_merged bank_same_day)
   \<and> is_true (case_when_6 ex_merged bank_same_day)
   \<and> bank_match_type ex_merged bank_same_day = Some label_3
   \<and> left_join_bank [ex_merged] [bank_same_day] =
       [Reconciled ex_merged (Some bank_same_day) (Some label_3)]"
proof -
  have 4: "is_true (case_when_4 ex_merged bank_same_day)" by code_simp
  have 7: "is_true (case_when_7 ex_merged bank_same_day)" by code_simp
  have m: "bank_match_type ex_merged bank_same_day = Some label_3" by code_simp
  have j: "left_join_bank [ex_merged] [bank_same_day] =
       [Reconciled ex_merged (Some bank_same_day) (Some label_3)]" by code_simp
  from same_day_tiers_unreachable [of ex_merged bank_same_day "[ex_merged]" "[bank_same_day]"] 4 7
  have "is_true (case_when_3 ex_merged bank_same_day)"
    and "is_true (case_when_6 ex_merged bank_same_day)" by blast+
  with 4 7 m j show ?thesis by blast
qed

section \<open>Properties of the type inference\<close>

text \<open>
  C8: a column whose mapped name is \<open>rrn\<close> is typed \<open>string\<close> whatever its header, dtype
  and values are: \<open>guess_py_type\<close> consults \<open>FIELD_TYPE_OVERRIDES\<close> before it looks at
  the column, and the post-pass of \<open>build\<close> sets \<open>string\<close> for \<open>rrn\<close> again, whatever
  type the entry held.
\<close>

theorem rrn_type_override:
  "guess_py_type sample looks_like_date ser ''rrn'' = ''string''
   \<and> enforce_py_type ''rrn'' t = ''string''
   \<and> py_type (refine_col_spec src ''rrn''
        (analyse_column sample looks_like_date original_col ser ''rrn'')) = ''string''"
  by (simp add: guess_py_type_def FIELD_TYPE_OVERRIDES_def enforce_py_type_def DATE_COLUMNS_def
      refine_col_spec_def analyse_column_def starts_with_def Let_def)

theorem rrn_type_override_witness:
  "guess_py_type (\<lambda>vs n. take n vs) (\<lambda>v. False) ex_rrn_series ''rrn'' = ''string''
   \<and> guess_py_type (\<lambda>vs n. take n vs) (\<lambda>v. False)
        (ex_rrn_series \<lparr> series_dtype := Integer_dtype \<rparr>) ''reference_no'' = ''integer''
   \<and> refine_col_spec ''bank'' ''rrn''
        (analyse_column (\<lambda>vs n. take n vs) (\<lambda>v. False) ''RRN''
           (ex_rrn_series \<lparr> series_dtype := Integer_dtype \<rparr>) ''rrn'')
      = \<lparr> original = ''RRN'', map_to = ''rrn'', py_type = ''string'', sql_type = ''VARCHAR(255)'' \<rparr>"
proof -
  have 1: "guess_py_type (\<lambda>vs n. take n vs) (\<lambda>v. False)
        (ex_rrn_series \<lparr> series_dtype := Integer_dtype \<rparr>) ''reference_no'' = ''integer''"
    by code_simp
  have 2: "refine_col_spec ''bank'' ''rrn''
        (analyse_column (\<lambda>vs n. take n vs) (\<lambda>v. False) ''RRN''
           (ex_rrn_series \<lparr> series_dtype := Integer_dtype \<rparr>) ''rrn'')
      = \<lparr> original = ''RRN'', map_to = ''rrn'', py_type = ''string'', sql_type = ''VARCHAR(255)'' \<rparr>"
    by code_simp
  from rrn_type_override [of "\<lambda>vs n. take n vs" "\<lambda>v. False" ex_rrn_series]
  have "guess_py_type (\<lambda>vs n. take n vs) (\<lambda>v. False) ex_rrn_series ''rrn'' = ''string''"
    by blast
  with 1 2 show ?thesis by (intro conjI)
qed

section \<open>Properties of the batch processing\<close>

lemma process_batches_no_failure:
  "\<not> list_ex chunk_fails cs \<Longrightarrow>
     process_batches s cs =
       (Returned, s \<lparr> total_rows := total_rows s + sum_list (map chunk_rows cs),
                     written := written s @ map chunk_rows cs \<rparr>)"
proof (induction cs arbitrary: s)
  case Nil
  then show ?case by simp
next
  case (Cons c cs)
  then show ?case by (cases c) (simp_all add: chunk_fails_def chunk_rows_def)
qed

lemma process_batches_first_failure:
  assumes "\<not> list_ex chunk_fails pre" and "chunk_fails c" and "error_count s = 0"
  shows "process_batches s (pre @ c # post) = process_batches s (pre @ [c])"
    and "fst (process_batches s (pre @ c # post)) = Raised"
    and "error_count (snd (process_batches s (pre @ c # post))) \<le> 1"
    and "written (snd (process_batches s (pre @ c # post))) = written s @ map chunk_rows pre"
  using assms
proof (induction pre arbitrary: s)
  case Nil
  {
    case 1 then show ?case by (cases c) (simp_all add: chunk_fails_def Let_def)
  next
    case 2 then show ?case by (cases c) (simp_all add: chunk_fails_def Let_def)
  next
    case 3 then show ?case by (cases c) (simp_all add: chunk_fails_def Let_def)
  next
    case 4 then show ?case by (cases c) (simp_all add: chunk_fails_def Let_def)
  }
next
  case (Cons p pre)
  {
    case 1 then show ?case using Cons.IH(1) [of "s \<lparr> total_rows := total_rows s + chunk_rows p, written := written s @ [chunk_rows p] \<rparr>"]
      by (cases p) (simp_all add: chunk_fails_def chunk_rows_def)
  next
    case 2 then show ?case using Cons.IH(2) [of "s \<lparr> total_rows := total_rows s + chunk_rows p, written := written s @ [chunk_rows p] \<rparr>"]
      by (cases p) (simp_all add: chunk_fails_def chunk_rows_def)
  next
    case 3 then show ?case using Cons.IH(3) [of "s \<lparr> total_rows := total_rows s + chunk_rows p, written := written s @ [chunk_rows p] \<rparr>"]
      by (cases p) (simp_all add: chunk_fails_def chunk_rows_def)
  next
    case 4 then show ?case using Cons.IH(4) [of "s \<lparr> total_rows := total_rows s + chunk_rows p, written := written s @ [chunk_rows p] \<rparr>"]
      by (cases p) (simp_all add: chunk_fails_def chunk_rows_def)
  }
qed

lemma output_exists_process_batches:
  "output_exists (snd (process_batches t cs)) = output_exists t"
proof (induction cs arbitrary: t)
  case Nil show ?case by simp
next
  case (Cons x xs) show ?case by (cases x) (simp_all add: Cons.IH Let_def)
qed

lemma process_batches_collects:
  "error_count s \<ge> 1 \<Longrightarrow>
     process_batches s (Clean_raises # cs) =
       process_batches (s \<lparr> error_count := error_count s + 1 \<rparr>) cs"
  by (simp add: Let_def)

text \<open>
  C9, amended: \<open>process_file\<close> resets the error counter, so the first batch that
  errors, at whatever position, has \<open>error_count = 1\<close> and stops the file at once: a
  \<open>RuntimeError\<close> is raised, the batches after it are not processed, and the partial
  output file is removed when \<open>os.remove\<close> succeeds. No batch error is collected
  without aborting. A run returns only when no batch errors, with \<open>error_count = 0\<close>
  and every batch written.
\<close>

theorem batch_error_policy:
  "(\<not> list_ex chunk_fails chunks \<longrightarrow>
      process_file True True remove_ok s chunks =
        (Returned, s \<lparr> total_rows := sum_list (map chunk_rows chunks), error_count := 0,
                       written := map chunk_rows chunks, output_exists := True \<rparr>))
   \<and> (\<not> list_ex chunk_fails pre \<and> chunk_fails c \<longrightarrow>
        process_file True True remove_ok s (pre @ c # post) =
          process_file True True remove_ok s (pre @ [c])
        \<and> fst (process_file True True remove_ok s (pre @ c # post)) = Raised
        \<and> error_count (snd (process_file True True remove_ok s (pre @ c # post))) \<le> 1
        \<and> (remove_ok \<longrightarrow>
              \<not> output_exists (snd (process_file True True remove_ok s (pre @ c # post)))
              \<and> written (snd (process_file True True remove_ok s (pre @ c # post))) = []))"
proof (intro conjI impI)
  assume "\<not> list_ex chunk_fails chunks"
  then show "process_file True True remove_ok s chunks =
        (Returned, s \<lparr> total_rows := sum_list (map chunk_rows chunks), error_count := 0,
                       written := map chunk_rows chunks, output_exists := True \<rparr>)"
    by (simp add: process_file_def process_file_in_batches_def process_batches_no_failure)
next
  let ?s = "s \<lparr> total_rows := 0, error_count := 0, written := [], output_exists := True \<rparr>"
  assume a: "\<not> list_ex chunk_fails pre \<and> chunk_fails c"
  have e: "error_count ?s = 0" by simp
  note ff = process_batches_first_failure [OF conjunct1 [OF a] conjunct2 [OF a] e, of post]
  obtain o' s' where r: "process_batches ?s (pre @ c # post) = (o', s')"
    by (cases "process_batches ?s (pre @ c # post)")
  from ff(2) have o': "o' = Raised" unfolding r by simp
  from ff(3) have ec: "error_count s' \<le> 1" unfolding r by simp
  from ff(1) have r1: "process_batches ?s (pre @ [c]) = (o', s')" unfolding r by simp
  show "process_file True True remove_ok s (pre @ c # post) =
          process_file True True remove_ok s (pre @ [c])"
    using r r1 by (simp add: process_file_def process_file_in_batches_def)
  have pf: "process_file True True remove_ok s (pre @ c # post) = (Raised, cleanup remove_ok s')"
    using r o' by (simp add: process_file_def process_file_in_batches_def)
  show "fst (process_file True True remove_ok s (pre @ c # post)) = Raised"
    by (simp add: pf)
  show "error_count (snd (process_file True True remove_ok s (pre @ c # post))) \<le> 1"
    using ec by (simp add: pf cleanup_def)
  have oe: "output_exists s'"
    using output_exists_process_batches [of ?s "pre @ c # post"] unfolding r by simp
  {
    assume "remove_ok"
    then show "\<not> output_exists (snd (process_file True True remove_ok s (pre @ c # post)))"
      using oe pf by (simp add: cleanup_def)
  }
  {
    assume "remove_ok"
    then show "written (snd (process_file True True remove_ok s (pre @ c # post))) = []"
      using oe pf by (simp add: cleanup_def)
  }
qed

text \<open>
  C9, as the spec states it: an error in a batch after the first is collected and does not
  abort the run. Here the first batch is written, the second errors, and the run is
  aborted with the output removed; the third batch is never processed.
\<close>

theorem batch_error_policy_counterexample:
  "\<not> chunk_fails (Chunk_ok 10) \<and> chunk_fails Clean_raises
   \<and> process_file True True True fresh_processor [Chunk_ok 10, Clean_raises, Chunk_ok 5] =
       (Raised, \<lparr> total_rows = 10, error_count = 1, written = [], output_exists = False \<rparr>)"
  by code_simp

theorem batch_error_policy_witness:
  "process_file True True True fresh_processor [Chunk_ok 10, Chunk_ok 5] =
     (Returned, \<lparr> total_rows = 15, error_count = 0, written = [10, 5], output_exists = True \<rparr>)
   \<and> process_file True True True fresh_processor [Chunk_ok 10, Write_raises 7, Chunk_ok 5, Clean_raises] =
       process_file True True True fresh_processor [Chunk_ok 10, Write_raises 7]
   \<and> process_file True True True fresh_processor [Chunk_ok 10, Write_raises 7] =
       (Raised, \<lparr> total_rows = 17, error_count = 1, written = [], output_exists = False \<rparr>)
   \<and> process_file True True True fresh_processor [Clean_raises, Chunk_ok 5] =
       (Raised, \<lparr> total_rows = 0, error_count = 1, written = [], output_exists = False \<rparr>)"
proof -
  have n: "\<not> list_ex chunk_fails [Chunk_ok 10, Chunk_ok 5]" by code_simp
  have p: "\<not> list_ex chunk_fails [Chunk_ok 10] \<and> chunk_fails (Write_raises 7)" by code_simp
  have q: "\<not> list_ex chunk_fails [] \<and> chunk_fails Clean_raises" by code_simp
  from batch_error_policy [where chunks = "[Chunk_ok 10, Chunk_ok 5]" and remove_ok = True
      and s = fresh_processor] n
  have 1: "process_file True True True fresh_processor [Chunk_ok 10, Chunk_ok 5] =
     (Returned, \<lparr> total_rows = 15, error_count = 0, written = [10, 5], output_exists = True \<rparr>)"
    by (simp add: fresh_processor_def chunk_rows_def)
  from batch_error_policy [where pre = "[Chunk_ok 10]" and c = "Write_raises 7"
      and remove_ok = True and s = fresh_processor and post = "[Chunk_ok 5, Clean_raises]"] p
  have 2: "process_file True True True fresh_processor [Chunk_ok 10, Write_raises 7, Chunk_ok 5, Clean_raises] =
       process_file True True True fresh_processor [Chunk_ok 10, Write_raises 7]"
    by simp
  have 3: "process_file True True True fresh_processor [Chunk_ok 10, Write_raises 7] =
       (Raised, \<lparr> total_rows = 17, error_count = 1, written = [], output_exists = False \<rparr>)"
    by code_simp
  have 4: "process_file True True True fresh_processor [Clean_raises, Chunk_ok 5] =
       (Raised, \<lparr> total_rows = 0, error_count = 1, written = [], output_exists = False \<rparr>)"
    by code_simp
  show ?thesis by (intro conjI) (rule 1 2 3 4)+
qed

section \<open>Properties of the cleaners\<close>

subsection \<open>Spreadsheet serial dates\<close>








subsection \<open>Null tokens\<close>




























end
